theory Spec2Isabelle
  imports
    Complex_Main
    "HOL-Library.AList"
    "HOL-Library.Char_ord"
    "HOL-Library.List_Lexorder"
begin

section \<open>Python values and dictionaries\<close>

text \<open>
  The market snapshot and the trade handled by \<^verbatim>\<open>spyv2_backend.py\<close> are Python
  dictionaries with string keys. Their values are the scalars the docstrings name:
  numbers, the status string, and whatever else a caller may leave in a field
  (\<^verbatim>\<open>None\<close>, a boolean). Python's \<^verbatim>\<open>int\<close> and \<^verbatim>\<open>float\<close> compare and
  equal each other by mathematical value, so both are one constructor holding that
  value: an \<^verbatim>\<open>int\<close> of any size or a finite \<^verbatim>\<open>float\<close>. Infinities and
  NaN are not values of a field here; the products the risk rule computes are
  floats of their own type below, rounded as the machine rounds them.

  A dictionary is an association list in insertion order, read with
  \<^const>\<open>map_of\<close> and written with \<^const>\<open>AList.update\<close>, which overwrites a key
  in place and appends a new one, as a Python \<^verbatim>\<open>dict\<close> does.

  The exceptions the code can raise are values of \<open>py_error\<close>.
\<close>

datatype py_error = TypeError | AttributeError | OverflowError

datatype pyval = PNone | PBool bool | PNum real | PStr string

type_synonym pydict = "(string \<times> pyval) list"

text \<open>\<^verbatim>\<open>d.get(k, default)\<close>\<close>

definition dict_get :: "pydict \<Rightarrow> string \<Rightarrow> pyval \<Rightarrow> pyval" where
  "dict_get d k dflt = (case map_of d k of None \<Rightarrow> dflt | Some v \<Rightarrow> v)"

text \<open>\<^verbatim>\<open>d[k] = v\<close>, on the dictionary passed in.\<close>

definition dict_set :: "pydict \<Rightarrow> string \<Rightarrow> pyval \<Rightarrow> pydict" where
  "dict_set d k v = AList.update k v d"

text \<open>
  The number a value stands for in arithmetic and ordering: \<^verbatim>\<open>bool\<close> is a
  subclass of \<^verbatim>\<open>int\<close> (\<^verbatim>\<open>True\<close> is 1); \<^verbatim>\<open>None\<close> and strings are not numbers.
\<close>

fun py_num :: "pyval \<Rightarrow> real option" where
  "py_num (PNum r) = Some r"
| "py_num (PBool b) = Some (if b then 1 else 0)"
| "py_num PNone = None"
| "py_num (PStr s) = None"

text \<open>
  The ordering operators \<^verbatim>\<open><\<close> and \<^verbatim>\<open>>\<close>. Two numbers compare by value, two
  strings lexicographically; every other pair of operands raises \<^verbatim>\<open>TypeError\<close>.
\<close>

fun py_lt :: "pyval \<Rightarrow> pyval \<Rightarrow> py_error + bool" where
  "py_lt (PStr s) (PStr t) = Inr (s < t)"
| "py_lt x y =
     (case (py_num x, py_num y) of
        (Some a, Some b) \<Rightarrow> Inr (a < b)
      | _ \<Rightarrow> Inl TypeError)"

definition py_gt :: "pyval \<Rightarrow> pyval \<Rightarrow> py_error + bool" where
  "py_gt x y = py_lt y x"

text \<open>
  \<^verbatim>\<open>x == y\<close> never raises: numbers are equal by value (so \<^verbatim>\<open>0 == 0.0\<close> and
  \<^verbatim>\<open>False == 0\<close>), other values when they are the same value.
\<close>

definition py_eq :: "pyval \<Rightarrow> pyval \<Rightarrow> bool" where
  "py_eq x y =
     (case (py_num x, py_num y) of
        (Some a, Some b) \<Rightarrow> a = b
      | _ \<Rightarrow> x = y)"

section \<open>Float multiplication\<close>

text \<open>
  The multipliers of \<^verbatim>\<open>manage_risk\<close> are annotated \<^verbatim>\<open>float\<close>, so
  \<^verbatim>\<open>stop_loss * entry_price\<close> is a float multiplication: the other operand is
  converted to a double and the product is taken in IEEE 754 binary64, rounded to
  nearest with ties to even. The result is a finite double or, when the product is
  too large, an infinity; Python raises nothing there.
\<close>

datatype pyfloat = Fin real | PosInf | NegInf

text \<open>Rounding a real to the nearest integer, a tie going to the even one.\<close>

definition round_half_even :: "real \<Rightarrow> int" where
  "round_half_even x =
     (let n = \<lfloor>x\<rfloor>; d = x - of_int n
      in if d < 1/2 then n
         else if 1/2 < d then n + 1
         else if even n then n else n + 1)"

text \<open>
  The spacing of the doubles around a magnitude \<open>a > 0\<close>: 53 significant bits, so
  \<open>2 ^ (e - 52)\<close> for \<open>2 ^ e \<le> a < 2 ^ (e + 1)\<close>, and the spacing of the subnormal
  numbers, \<open>2 ^ (- 1074)\<close>, below \<open>2 ^ (- 1022)\<close>.
\<close>

definition binary64_quantum :: "real \<Rightarrow> real" where
  "binary64_quantum a = 2 powr (of_int (max \<lfloor>log 2 a\<rfloor> (- 1022)) - 52)"

text \<open>
  The double nearest to a real: the nearest multiple of the spacing, an infinity
  once that reaches \<open>2 ^ 1024\<close>. A real that is a double is its own rounding.
\<close>

definition binary64_round :: "real \<Rightarrow> pyfloat" where
  "binary64_round r =
     (if r = 0 then Fin 0
      else
        let q = binary64_quantum \<bar>r\<bar>;
            v = of_int (round_half_even (\<bar>r\<bar> / q)) * q
        in if 2 ^ 1024 \<le> v then (if 0 < r then PosInf else NegInf)
           else Fin (sgn r * v))"

text \<open>
  \<^verbatim>\<open>f * x\<close> for a float \<open>f\<close>. A string or \<^verbatim>\<open>None\<close> raises \<^verbatim>\<open>TypeError\<close>. A
  number is converted to a double first: a float is that double already, an
  \<^verbatim>\<open>int\<close> is rounded to the nearest one, and an \<^verbatim>\<open>int\<close> too large for any
  double raises \<^verbatim>\<open>OverflowError\<close>. Then the product is rounded.
\<close>

definition py_mul_float :: "real \<Rightarrow> pyval \<Rightarrow> py_error + pyfloat" where
  "py_mul_float f x =
     (case py_num x of
        None \<Rightarrow> Inl TypeError
      | Some b \<Rightarrow>
          (case binary64_round b of
             Fin b' \<Rightarrow> Inr (binary64_round (f * b'))
           | PosInf \<Rightarrow> Inl OverflowError
           | NegInf \<Rightarrow> Inl OverflowError))"

text \<open>
  \<open>float_le y a\<close> is \<open>y \<le> a\<close> for a float \<open>y\<close> and a number \<open>a\<close>; Python compares
  an \<^verbatim>\<open>int\<close> with a float by exact value. \<open>py_ge_float x y\<close> is \<^verbatim>\<open>x >= y\<close> for a
  field value \<open>x\<close> and a float \<open>y\<close>: \<^verbatim>\<open>TypeError\<close> when \<open>x\<close> is no number.
\<close>

fun float_le :: "pyfloat \<Rightarrow> real \<Rightarrow> bool" where
  "float_le (Fin b) a = (b \<le> a)"
| "float_le PosInf a = False"
| "float_le NegInf a = True"

definition py_ge_float :: "pyval \<Rightarrow> pyfloat \<Rightarrow> py_error + bool" where
  "py_ge_float x y =
     (case py_num x of
        None \<Rightarrow> Inl TypeError
      | Some a \<Rightarrow> Inr (float_le y a))"

section \<open>Boolean connectives\<close>

text \<open>
  \<^verbatim>\<open>a and b\<close> on comparison results: the right operand is evaluated, and can raise,
  only when the left one is true.
\<close>

definition py_and :: "py_error + bool \<Rightarrow> py_error + bool \<Rightarrow> py_error + bool" where
  "py_and a b =
     (case a of
        Inl e \<Rightarrow> Inl e
      | Inr x \<Rightarrow> if x then b else Inr False)"

section \<open>Signal detection\<close>

definition detect_trade_signal :: "pydict \<Rightarrow> py_error + string" where
  "detect_trade_signal data =
     (let adx = dict_get data ''ADX'' (PNum 0);
          price = dict_get data ''price'' (PNum 0);
          vwap = dict_get data ''VWAP'' (PNum 0)
      in case py_and (py_gt adx (PNum 25)) (py_gt price vwap) of
           Inl e \<Rightarrow> Inl e
         | Inr bullish \<Rightarrow>
             if bullish then Inr ''Bullish Signal''
             else
               (case py_and (py_gt adx (PNum 25)) (py_lt price vwap) of
                  Inl e \<Rightarrow> Inl e
                | Inr bearish \<Rightarrow>
                    if bearish then Inr ''Bearish Signal''
                    else Inr ''No Trade''))"

text \<open>A mapping of numeric fields: every value it holds is a number.\<close>

definition numeric_fields :: "pydict \<Rightarrow> bool" where
  "numeric_fields d = list_all (\<lambda>(k, v). py_num v \<noteq> None) d"

section \<open>Risk management\<close>

text \<open>
  The trade is updated in place and returned; the model returns the updated
  dictionary, or the exception raised. Every raise comes before the assignment to
  \<^verbatim>\<open>status\<close>, so a trade whose check raises is left as it was. The two
  multipliers are finite floats, as annotated.
\<close>

definition manage_risk :: "pydict \<Rightarrow> real \<Rightarrow> real \<Rightarrow> py_error + pydict" where
  "manage_risk trade stop_loss take_profit =
     (let entry_price = dict_get trade ''entry_price'' (PNum 0) in
      if py_eq entry_price (PNum 0) then Inr trade
      else
        let loss = dict_get trade ''loss'' (PNum 0);
            profit = dict_get trade ''profit'' (PNum 0)
        in case py_mul_float stop_loss entry_price of
             Inl e \<Rightarrow> Inl e
           | Inr stop_level \<Rightarrow>
               (case py_ge_float loss stop_level of
                  Inl e \<Rightarrow> Inl e
                | Inr stopped \<Rightarrow>
                    if stopped then Inr (dict_set trade ''status'' (PStr ''closed''))
                    else
                      (case py_mul_float take_profit entry_price of
                         Inl e \<Rightarrow> Inl e
                       | Inr profit_level \<Rightarrow>
                           (case py_ge_float profit profit_level of
                              Inl e \<Rightarrow> Inl e
                            | Inr taken \<Rightarrow>
                                if taken then Inr (dict_set trade ''status'' (PStr ''closed''))
                                else Inr trade))))"

section \<open>The execute-trade endpoint\<close>

text \<open>
  \<^verbatim>\<open>request.get_json()\<close> hands the handler a parsed JSON value: \<^verbatim>\<open>None\<close> for a
  body that is \<^verbatim>\<open>null\<close> (or, where the framework returns rather than aborts, for
  no body at all), a \<^verbatim>\<open>dict\<close> for an object, a \<^verbatim>\<open>list\<close> for an array, or a
  scalar. The handler below is a function of that value. An object keeps its
  members as an association list.
\<close>

datatype json =
    JNull
  | JBool bool
  | JNum real
  | JStr string
  | JArr "json list"
  | JObj "(string \<times> json) list"

text \<open>Python truth value of a parsed body, as tested by \<^verbatim>\<open>if not payload\<close>.\<close>

fun truthy :: "json \<Rightarrow> bool" where
  "truthy JNull = False"
| "truthy (JBool b) = b"
| "truthy (JNum r) = (r \<noteq> 0)"
| "truthy (JStr s) = (s \<noteq> [])"
| "truthy (JArr xs) = (xs \<noteq> [])"
| "truthy (JObj kvs) = (kvs \<noteq> [])"

text \<open>
  \<^verbatim>\<open>payload.get(k, default)\<close>: only a \<^verbatim>\<open>dict\<close> has the method; on a list, a
  string, a number or a boolean the attribute lookup raises \<^verbatim>\<open>AttributeError\<close>.
\<close>

fun payload_get :: "json \<Rightarrow> string \<Rightarrow> json \<Rightarrow> py_error + json" where
  "payload_get (JObj kvs) k dflt =
     Inr (case map_of kvs k of None \<Rightarrow> dflt | Some v \<Rightarrow> v)"
| "payload_get _ k dflt = Inl AttributeError"

text \<open>
  A row handed to the store: the dictionary literal passed to \<^verbatim>\<open>insert\<close>, with
  its keys in the order written.
\<close>

type_synonym trade_row = "(string \<times> json) list"

text \<open>
  The Supabase client is outside the file: \<open>insert_trades row\<close> stands for
  \<^verbatim>\<open>supabase.table("trades").insert(row).execute()\<close> followed by \<^verbatim>\<open>.data\<close>, which
  either raises or yields the rows the store reports. The handler returns what the
  request ends in (an exception, or a JSON body with its HTTP status code) together
  with the rows it passed to \<^verbatim>\<open>insert\<close>, in order.
\<close>

definition execute_trade ::
  "(trade_row \<Rightarrow> py_error + json) \<Rightarrow> json \<Rightarrow> (py_error + json \<times> nat) \<times> trade_row list" where
  "execute_trade insert_trades payload =
     (if \<not> truthy payload then
        (Inr (JObj [(''status'', JStr ''error''),
                    (''message'', JStr ''No JSON payload provided'')], 400), [])
      else
        case payload_get payload ''signal'' (JStr ''No Signal'') of
          Inl e \<Rightarrow> (Inl e, [])
        | Inr signal \<Rightarrow>
        case payload_get payload ''broker'' (JStr ''Unknown'') of
          Inl e \<Rightarrow> (Inl e, [])
        | Inr broker \<Rightarrow>
        case payload_get payload ''capital_allocation'' (JNum 0) of
          Inl e \<Rightarrow> (Inl e, [])
        | Inr capital_allocation \<Rightarrow>
        case payload_get payload ''entry_price'' (JNum 0) of
          Inl e \<Rightarrow> (Inl e, [])
        | Inr entry_price \<Rightarrow>
        case payload_get payload ''user_id'' JNull of
          Inl e \<Rightarrow> (Inl e, [])
        | Inr user_id \<Rightarrow>
            let status = JStr ''executed'';
                row = [(''signal'', signal),
                       (''broker'', broker),
                       (''capital_allocation'', capital_allocation),
                       (''entry_price'', entry_price),
                       (''status'', status),
                       (''user_id'', user_id)]
            in case insert_trades row of
                 Inl e \<Rightarrow> (Inl e, [row])
               | Inr data \<Rightarrow>
                   (Inr (JObj [(''status'', JStr ''success''), (''data'', data)], 201),
                    [row]))"

text \<open>
  The reading of "the request carries no parseable (empty or missing) JSON body"
  taken from the interface description: nothing was parsed, or what was parsed is
  an empty container or an empty string.
\<close>

definition no_json_body :: "json \<Rightarrow> bool" where
  "no_json_body p = (p = JNull \<or> p = JObj [] \<or> p = JArr [] \<or> p = JStr [])"

text \<open>The client-error response of the endpoint.\<close>

definition payload_missing_response :: "json \<times> nat" where
  "payload_missing_response =
     (JObj [(''status'', JStr ''error''),
            (''message'', JStr ''No JSON payload provided'')], 400)"

text \<open>
  A store that accepts every row and reports it back, used to run the handler on
  concrete requests.
\<close>

definition store_echo :: "trade_row \<Rightarrow> py_error + json" where
  "store_echo row = Inr (JArr [JObj row])"

text \<open>
  A position whose \<^verbatim>\<open>entry_price\<close>, \<^verbatim>\<open>loss\<close> and \<^verbatim>\<open>profit\<close> are numbers
  wherever they are present (an absent field reads as 0).
\<close>

definition numeric_position :: "pydict \<Rightarrow> bool" where
  "numeric_position t =
     list_all (\<lambda>k. py_num (dict_get t k (PNum 0)) \<noteq> None)
       [''entry_price'', ''loss'', ''profit'']"

text \<open>
  The entry price is a number that converts to a double: a float, or an
  \<^verbatim>\<open>int\<close> within the range of the doubles.
\<close>

definition entry_price_in_float_range :: "pydict \<Rightarrow> bool" where
  "entry_price_in_float_range t =
     (case py_num (dict_get t ''entry_price'' (PNum 0)) of
        None \<Rightarrow> False
      | Some e \<Rightarrow>
          (case binary64_round e of
             Fin e' \<Rightarrow> True
           | PosInf \<Rightarrow> False
           | NegInf \<Rightarrow> False))"

section \<open>Facts about the Python operations\<close>

lemma py_gt_num: "py_num x = Some a \<Longrightarrow> py_num y = Some b \<Longrightarrow> py_gt x y = Inr (b < a)"
  by (cases x; cases y) (auto simp: py_gt_def)

lemma py_lt_num: "py_num x = Some a \<Longrightarrow> py_num y = Some b \<Longrightarrow> py_lt x y = Inr (a < b)"
  by (cases x; cases y) auto

lemma py_eq_zero: "py_eq x (PNum 0) \<longleftrightarrow> py_num x = Some 0"
  by (cases x) (auto simp: py_eq_def)

lemma py_ge_float_num: "py_num x = Some a \<Longrightarrow> py_ge_float x y = Inr (float_le y a)"
  by (simp add: py_ge_float_def)

lemma float_le_mono: "float_le y a \<Longrightarrow> a \<le> b \<Longrightarrow> float_le y b"
  by (cases y) auto

lemma dict_get_absent: "map_of d k = None \<Longrightarrow> dict_get d k dflt = dflt"
  by (simp add: dict_get_def)

lemma dict_get_present: "map_of d k = Some v \<Longrightarrow> dict_get d k dflt = v"
  by (simp add: dict_get_def)

lemma dict_get_dict_set:
  "dict_get (dict_set d k v) k' dflt = (if k' = k then v else dict_get d k' dflt)"
  by (simp add: dict_get_def dict_set_def update_conv')

lemma dict_get_fill_default:
  "map_of d k = None \<Longrightarrow> dict_get (dict_set d k dflt) k' dflt = dict_get d k' dflt"
  by (simp add: dict_get_dict_set dict_get_absent)

lemma numeric_fields_get:
  "numeric_fields d \<Longrightarrow> \<exists>r. py_num (dict_get d k (PNum 0)) = Some r"
proof (cases "map_of d k")
  case None
  then show ?thesis by (simp add: dict_get_def)
next
  case (Some v)
  assume "numeric_fields d"
  moreover from Some have "(k, v) \<in> set d" by (rule map_of_SomeD)
  ultimately have "py_num v \<noteq> None"
    by (auto simp: numeric_fields_def list_all_iff)
  with Some show ?thesis by (auto simp: dict_get_def)
qed

lemma filter_update_other:
  "filter (\<lambda>p. fst p \<noteq> k) (AList.update k v al) = filter (\<lambda>p. fst p \<noteq> k) al"
  by (induction al) auto

section \<open>Facts about float rounding\<close>

lemma round_half_even_nonneg: "0 \<le> x \<Longrightarrow> 0 \<le> round_half_even x"
  by (auto simp: round_half_even_def Let_def)

lemma round_half_even_ge_floor: "\<lfloor>x\<rfloor> \<le> round_half_even x"
  by (auto simp: round_half_even_def Let_def)

lemma binary64_quantum_pos: "0 < binary64_quantum a"
  by (simp add: binary64_quantum_def)

text \<open>A product of a positive and a negative float is never positive.\<close>

lemma binary64_round_nonpos: "r \<le> 0 \<Longrightarrow> float_le (binary64_round r) 0"
proof (cases "r = 0")
  case True
  then show ?thesis by (simp add: binary64_round_def)
next
  case False
  assume "r \<le> 0"
  with False have neg: "r < 0" by simp
  have "0 \<le> \<bar>r\<bar> / binary64_quantum \<bar>r\<bar>"
    using binary64_quantum_pos [of "\<bar>r\<bar>"] by simp
  then have "0 \<le> round_half_even (\<bar>r\<bar> / binary64_quantum \<bar>r\<bar>)"
    by (rule round_half_even_nonneg)
  then have "0 \<le> of_int (round_half_even (\<bar>r\<bar> / binary64_quantum \<bar>r\<bar>)) * binary64_quantum \<bar>r\<bar>"
    using binary64_quantum_pos [of "\<bar>r\<bar>"] by simp
  with neg show ?thesis
    by (simp add: binary64_round_def Let_def mult_le_0_iff)
qed

lemma binary64_quantum_eval:
  assumes "0 < a" and "2 powr of_int k \<le> a" and "a < 2 powr of_int (k + 1)"
  shows "binary64_quantum a = 2 powr (of_int (max k (- 1022)) - 52)"
proof -
  have "\<lfloor>log 2 a\<rfloor> = k"
    using assms by (simp add: floor_log_eq_powr_iff)
  then show ?thesis by (simp add: binary64_quantum_def)
qed

text \<open>Rounding a positive real, given the binade it lies in.\<close>

lemma binary64_round_pos_eval:
  assumes "0 < a" and "2 powr of_int k \<le> a" and "a < 2 powr of_int (k + 1)"
    and "of_int (round_half_even (a / 2 powr (of_int (max k (- 1022)) - 52)))
           * 2 powr (of_int (max k (- 1022)) - 52) = v"
    and "v < 2 ^ 1024"
  shows "binary64_round a = Fin v"
proof -
  have q: "binary64_quantum a = 2 powr (of_int (max k (- 1022)) - 52)"
    using assms(1-3) by (rule binary64_quantum_eval)
  have "a \<noteq> 0" and "\<bar>a\<bar> = a" and "sgn a = 1"
    using assms(1) by simp_all
  then show ?thesis
    using assms(4,5) by (simp add: binary64_round_def Let_def q)
qed

lemma binary64_round_minus:
  assumes "binary64_round a = Fin v"
  shows "binary64_round (- a) = Fin (- v)"
proof (cases "a = 0")
  case True
  with assms show ?thesis by (simp add: binary64_round_def)
next
  case False
  with assms show ?thesis
    by (auto simp: binary64_round_def Let_def sgn_if split: if_splits)
qed

text \<open>From \<open>2 ^ 1024\<close> on there is no double: the rounding is an infinity.\<close>

lemma binary64_round_overflow:
  assumes "2 ^ 1024 \<le> \<bar>r\<bar>"
  shows "binary64_round r = (if 0 < r then PosInf else NegInf)"
proof -
  let ?a = "\<bar>r\<bar>"
  let ?e = "\<lfloor>log 2 ?a\<rfloor>"
  have apos: "0 < ?a" using assms by (smt (verit) zero_less_power)
  have "(1024::real) \<le> log 2 ?a"
    using assms apos by (simp add: le_log_iff)
  then have e: "1024 \<le> ?e" by (simp add: le_floor_iff)
  then have m: "max ?e (- 1022) = ?e" by simp
  have q: "binary64_quantum ?a = 2 powr (of_int ?e - 52)"
    by (simp add: binary64_quantum_def m)
  have "2 powr of_int ?e \<le> ?a"
    using apos floor_log_eq_powr_iff [of ?a 2 ?e] by simp
  then have "2 powr 52 \<le> ?a / binary64_quantum ?a"
    by (simp add: q powr_diff pos_le_divide_eq field_simps)
  then have "(2::real) ^ 52 \<le> ?a / binary64_quantum ?a" by simp
  then have "(2::int) ^ 52 \<le> \<lfloor>?a / binary64_quantum ?a\<rfloor>"
    by (simp add: le_floor_iff)
  then have "(2::int) ^ 52 \<le> round_half_even (?a / binary64_quantum ?a)"
    using round_half_even_ge_floor [of "?a / binary64_quantum ?a"] by linarith
  then have "(2::real) ^ 52 \<le> of_int (round_half_even (?a / binary64_quantum ?a))"
    by (metis of_int_le_iff of_int_numeral of_int_power)
  then have "2 ^ 52 * binary64_quantum ?a
      \<le> of_int (round_half_even (?a / binary64_quantum ?a)) * binary64_quantum ?a"
    using binary64_quantum_pos [of ?a] by simp
  moreover have "2 ^ 52 * binary64_quantum ?a = 2 powr of_int ?e"
    by (simp add: q powr_diff)
  moreover have "(2::real) ^ 1024 \<le> 2 powr of_int ?e"
  proof -
    have "(1024::real) \<le> of_int ?e"
      using e by simp
    then have "(2::real) powr 1024 \<le> 2 powr of_int ?e"
      by (rule powr_mono) simp
    then show ?thesis by simp
  qed
  ultimately have "2 ^ 1024
      \<le> of_int (round_half_even (?a / binary64_quantum ?a)) * binary64_quantum ?a"
    by linarith
  moreover have "r \<noteq> 0" using apos by simp
  ultimately show ?thesis
    by (simp add: binary64_round_def Let_def)
qed

text \<open>The doubles met in the examples below are their own roundings.\<close>

lemma binary64_round_100: "binary64_round 100 = Fin 100"
  by (rule binary64_round_pos_eval [where k = 6])
    (simp_all add: powr_minus_divide round_half_even_def)

lemma binary64_round_200: "binary64_round 200 = Fin 200"
  by (rule binary64_round_pos_eval [where k = 7])
    (simp_all add: powr_minus_divide round_half_even_def)

lemma binary64_round_400: "binary64_round 400 = Fin 400"
  by (rule binary64_round_pos_eval [where k = 8])
    (simp_all add: powr_minus_divide round_half_even_def)

lemma binary64_round_neg_200: "binary64_round (- 200) = Fin (- 200)"
  using binary64_round_200 by (rule binary64_round_minus)

lemma binary64_round_neg_400: "binary64_round (- 400) = Fin (- 400)"
  using binary64_round_400 by (rule binary64_round_minus)

text \<open>
  The double nearest to 0.05 is \<open>3602879701896397 / 2 ^ 56\<close>, a little above
  0.05, and its exact product with 100 is a little above 5; the float product is
  5 all the same.
\<close>

lemma binary64_round_product_example:
  "binary64_round (3602879701896397 / 2 ^ 56 * 100) = Fin 5"
  by (rule binary64_round_pos_eval [where k = 2])
    (simp_all add: powr_minus_divide round_half_even_def)

lemma py_mul_float_num:
  "py_num x = Some b \<Longrightarrow> binary64_round b = Fin b' \<Longrightarrow>
   py_mul_float f x = Inr (binary64_round (f * b'))"
  by (simp add: py_mul_float_def)

lemma py_mul_float_overflow:
  "py_num x = Some b \<Longrightarrow> 2 ^ 1024 \<le> \<bar>b\<bar> \<Longrightarrow> py_mul_float f x = Inl OverflowError"
  by (simp add: py_mul_float_def binary64_round_overflow)

section \<open>Shared facts about the two decision functions\<close>

lemma manage_risk_Inr_cases:
  "manage_risk t sl tp = Inr t' \<Longrightarrow> t' = t \<or> t' = dict_set t ''status'' (PStr ''closed'')"
  by (auto simp: manage_risk_def Let_def split: if_splits sum.splits)

lemma manage_risk_numeric:
  assumes "py_num (dict_get t ''entry_price'' (PNum 0)) = Some e"
    and "binary64_round e = Fin e'"
    and "py_num (dict_get t ''loss'' (PNum 0)) = Some l"
    and "py_num (dict_get t ''profit'' (PNum 0)) = Some p"
  shows "manage_risk t sl tp =
     Inr (if e = 0 then t
          else if float_le (binary64_round (sl * e')) l
            then dict_set t ''status'' (PStr ''closed'')
          else if float_le (binary64_round (tp * e')) p
            then dict_set t ''status'' (PStr ''closed'')
          else t)"
  using assms
  by (simp add: manage_risk_def Let_def py_eq_zero py_mul_float_num py_ge_float_num)

lemma manage_risk_overflow:
  assumes "py_num (dict_get t ''entry_price'' (PNum 0)) = Some e"
    and "2 ^ 1024 \<le> \<bar>e\<bar>"
  shows "manage_risk t sl tp = Inl OverflowError"
proof -
  have "e \<noteq> 0"
    using assms(2) by (smt (verit) zero_less_power)
  then have "\<not> py_eq (dict_get t ''entry_price'' (PNum 0)) (PNum 0)"
    using assms(1) by (simp add: py_eq_zero)
  moreover have "py_mul_float sl (dict_get t ''entry_price'' (PNum 0)) = Inl OverflowError"
    using assms by (rule py_mul_float_overflow)
  ultimately show ?thesis
    by (simp add: manage_risk_def Let_def)
qed

lemma manage_risk_returns:
  assumes "numeric_position t" and "entry_price_in_float_range t"
  shows "\<exists>t'. manage_risk t sl tp = Inr t'"
proof -
  from assms(1) obtain e l p where n: "py_num (dict_get t ''entry_price'' (PNum 0)) = Some e"
    "py_num (dict_get t ''loss'' (PNum 0)) = Some l"
    "py_num (dict_get t ''profit'' (PNum 0)) = Some p"
    by (auto simp: numeric_position_def)
  from assms(2) n(1) obtain e' where "binary64_round e = Fin e'"
    by (auto simp: entry_price_in_float_range_def split: pyfloat.splits)
  with n show ?thesis by (simp add: manage_risk_numeric)
qed

lemma detect_trade_signal_numeric:
  assumes "py_num (dict_get d ''ADX'' (PNum 0)) = Some adx"
    and "py_num (dict_get d ''price'' (PNum 0)) = Some price"
    and "py_num (dict_get d ''VWAP'' (PNum 0)) = Some vwap"
  shows "detect_trade_signal d =
      Inr (if 25 < adx \<and> vwap < price then ''Bullish Signal''
           else if 25 < adx \<and> price < vwap then ''Bearish Signal''
           else ''No Trade'')"
proof -
  have a: "py_gt (dict_get d ''ADX'' (PNum 0)) (PNum 25) = Inr (25 < adx)"
    using assms(1) by (simp add: py_gt_num)
  have g: "py_gt (dict_get d ''price'' (PNum 0)) (dict_get d ''VWAP'' (PNum 0)) = Inr (vwap < price)"
    using assms(2,3) by (simp add: py_gt_num)
  have l: "py_lt (dict_get d ''price'' (PNum 0)) (dict_get d ''VWAP'' (PNum 0)) = Inr (price < vwap)"
    using assms(2,3) by (simp add: py_lt_num)
  show ?thesis
    by (simp add: detect_trade_signal_def Let_def a g l py_and_def)
qed

lemma truthy_iff:
  "truthy p \<longleftrightarrow> p \<notin> {JNull, JBool False, JNum 0, JStr [], JArr [], JObj []}"
  by (cases p) auto

section \<open>Signal detection: the three labels\<close>

text \<open>
  C1. For a snapshot whose \<^verbatim>\<open>ADX\<close>, \<^verbatim>\<open>price\<close> and \<^verbatim>\<open>VWAP\<close> read as numbers
  (an absent field reads as 0), \<^verbatim>\<open>detect_trade_signal\<close> returns "Bullish Signal"
  exactly when ADX > 25 and price > VWAP, "Bearish Signal" exactly when ADX > 25
  and price < VWAP, and "No Trade" exactly in the remaining cases: ADX <= 25, or
  price equal to VWAP.
\<close>

theorem detect_trade_signal_cases:
  assumes "py_num (dict_get d ''ADX'' (PNum 0)) = Some adx"
    and "py_num (dict_get d ''price'' (PNum 0)) = Some price"
    and "py_num (dict_get d ''VWAP'' (PNum 0)) = Some vwap"
  shows "(detect_trade_signal d = Inr ''Bullish Signal'' \<longleftrightarrow> 25 < adx \<and> vwap < price)
       \<and> (detect_trade_signal d = Inr ''Bearish Signal'' \<longleftrightarrow> 25 < adx \<and> price < vwap)
       \<and> (detect_trade_signal d = Inr ''No Trade'' \<longleftrightarrow> adx \<le> 25 \<or> price = vwap)"
  using detect_trade_signal_numeric [OF assms] by auto

theorem detect_trade_signal_cases_witness:
  "py_num (dict_get [(''ADX'', PNum 30), (''price'', PNum 101), (''VWAP'', PNum 100)] ''ADX'' (PNum 0)) = Some 30
   \<and> py_num (dict_get [(''ADX'', PNum 30), (''price'', PNum 101), (''VWAP'', PNum 100)] ''price'' (PNum 0)) = Some 101
   \<and> py_num (dict_get [(''ADX'', PNum 30), (''price'', PNum 101), (''VWAP'', PNum 100)] ''VWAP'' (PNum 0)) = Some 100
   \<and> detect_trade_signal [(''ADX'', PNum 30), (''price'', PNum 101), (''VWAP'', PNum 100)] = Inr ''Bullish Signal''
   \<and> detect_trade_signal [(''ADX'', PNum 30), (''price'', PNum 101), (''VWAP'', PNum 100)] \<noteq> Inr ''No Trade''"
proof -
  let ?d = "[(''ADX'', PNum 30), (''price'', PNum 101), (''VWAP'', PNum 100)]"
  have h1: "py_num (dict_get ?d ''ADX'' (PNum 0)) = Some 30"
    and h2: "py_num (dict_get ?d ''price'' (PNum 0)) = Some 101"
    and h3: "py_num (dict_get ?d ''VWAP'' (PNum 0)) = Some 100"
    by (simp_all add: dict_get_def)
  show ?thesis
    using h1 h2 h3 detect_trade_signal_cases [OF h1 h2 h3] by simp
qed

text \<open>
  With a trend strength of at most 25 the second operand of each \<^verbatim>\<open>and\<close> is never
  evaluated, so the answer is "No Trade" whatever \<^verbatim>\<open>price\<close> and \<^verbatim>\<open>VWAP\<close>
  hold, numbers or not.
\<close>

lemma detect_trade_signal_weak_trend:
  assumes "py_num (dict_get d ''ADX'' (PNum 0)) = Some adx" and "adx \<le> 25"
  shows "detect_trade_signal d = Inr ''No Trade''"
proof -
  have "py_gt (dict_get d ''ADX'' (PNum 0)) (PNum 25) = Inr False"
    using assms by (simp add: py_gt_num)
  then show ?thesis
    by (simp add: detect_trade_signal_def Let_def py_and_def)
qed

text \<open>
  C6. On a mapping of numeric fields (negative and out-of-range values included)
  \<^verbatim>\<open>detect_trade_signal\<close> raises nothing and returns one of the three labels; a
  field that is absent is read as 0, so storing 0 under an absent key changes
  nothing; and the empty snapshot gives "No Trade".
\<close>

theorem detect_trade_signal_total:
  assumes "numeric_fields d"
  shows "(detect_trade_signal d = Inr ''Bullish Signal''
          \<or> detect_trade_signal d = Inr ''Bearish Signal''
          \<or> detect_trade_signal d = Inr ''No Trade'')
       \<and> (\<forall>k. map_of d k = None \<longrightarrow>
             detect_trade_signal (dict_set d k (PNum 0)) = detect_trade_signal d)
       \<and> detect_trade_signal [] = Inr ''No Trade''"
proof -
  obtain a p v where n: "py_num (dict_get d ''ADX'' (PNum 0)) = Some a"
    "py_num (dict_get d ''price'' (PNum 0)) = Some p"
    "py_num (dict_get d ''VWAP'' (PNum 0)) = Some v"
    using numeric_fields_get [OF assms] by metis
  have "detect_trade_signal d = Inr ''Bullish Signal''
          \<or> detect_trade_signal d = Inr ''Bearish Signal''
          \<or> detect_trade_signal d = Inr ''No Trade''"
    by (simp add: detect_trade_signal_numeric [OF n])
  moreover have "\<forall>k. map_of d k = None \<longrightarrow>
             detect_trade_signal (dict_set d k (PNum 0)) = detect_trade_signal d"
    by (simp add: detect_trade_signal_def dict_get_fill_default)
  moreover have "detect_trade_signal [] = Inr ''No Trade''"
    by (simp add: detect_trade_signal_def dict_get_def py_gt_def py_and_def)
  ultimately show ?thesis by blast
qed

theorem detect_trade_signal_total_witness:
  "numeric_fields [(''ADX'', PNum 30), (''price'', PNum (- 5))]
   \<and> map_of [(''ADX'', PNum 30), (''price'', PNum (- 5))] ''VWAP'' = None
   \<and> detect_trade_signal [(''ADX'', PNum 30), (''price'', PNum (- 5)), (''VWAP'', PNum 0)]
       = detect_trade_signal [(''ADX'', PNum 30), (''price'', PNum (- 5))]
   \<and> detect_trade_signal [(''ADX'', PNum 30), (''price'', PNum (- 5))] = Inr ''Bearish Signal''
   \<and> detect_trade_signal [] = Inr ''No Trade''"
proof -
  let ?d = "[(''ADX'', PNum 30), (''price'', PNum (- 5))]"
  have h1: "numeric_fields ?d"
    by (simp add: numeric_fields_def)
  have h2: "map_of ?d ''VWAP'' = None"
    by simp
  have e: "detect_trade_signal ?d = Inr ''Bearish Signal''"
    by (simp add: detect_trade_signal_def dict_get_def py_gt_def py_and_def)
  note r = detect_trade_signal_total [OF h1]
  note f = r [THEN conjunct2, THEN conjunct1, rule_format, OF h2]
  note n = r [THEN conjunct2, THEN conjunct2]
  have f': "detect_trade_signal [(''ADX'', PNum 30), (''price'', PNum (- 5)), (''VWAP'', PNum 0)]
      = detect_trade_signal ?d"
    using f by (simp add: dict_set_def)
  from h1 h2 f' e n show ?thesis by (intro conjI)
qed

section \<open>Risk management: thresholds, guard and frame\<close>

text \<open>
  C2, as stated, fails. An \<^verbatim>\<open>int\<close> entry price beyond the range of the doubles
  is non-zero, the loss and the profit of 0 are below any threshold, and the
  position is still not returned unchanged: \<^verbatim>\<open>stop_loss * entry_price\<close> raises
  \<^verbatim>\<open>OverflowError\<close> when it converts the entry price.
\<close>

theorem manage_risk_thresholds_counterexample:
  "(10 ^ 309 :: real) \<noteq> 0
   \<and> manage_risk [(''entry_price'', PNum (10 ^ 309)), (''loss'', PNum 0),
                  (''profit'', PNum 0), (''status'', PStr ''open'')] (1/2) 1
       = Inl OverflowError"
proof -
  have "manage_risk [(''entry_price'', PNum (10 ^ 309)), (''loss'', PNum 0),
                     (''profit'', PNum 0), (''status'', PStr ''open'')] (1/2) 1
       = Inl OverflowError"
    by (rule manage_risk_overflow [where e = "10 ^ 309"]) (simp_all add: dict_get_def)
  then show ?thesis by simp
qed

text \<open>
  C2, amended. For a position whose entry price is a non-zero number that
  converts to a float, with numeric loss and profit, \<^verbatim>\<open>manage_risk\<close> sets the
  status to "closed" if loss >= stop_loss * entry_price, otherwise sets it to
  "closed" if profit >= take_profit * entry_price, and otherwise returns the
  position as it was. The products are the float products as the machine rounds
  them, and both comparisons with them are inclusive.
\<close>

theorem manage_risk_thresholds:
  assumes "py_num (dict_get t ''entry_price'' (PNum 0)) = Some e" and "e \<noteq> 0"
    and "binary64_round e = Fin e'"
    and "py_num (dict_get t ''loss'' (PNum 0)) = Some l"
    and "py_num (dict_get t ''profit'' (PNum 0)) = Some p"
  shows "manage_risk t sl tp =
     Inr (if float_le (binary64_round (sl * e')) l
            then dict_set t ''status'' (PStr ''closed'')
          else if float_le (binary64_round (tp * e')) p
            then dict_set t ''status'' (PStr ''closed'')
          else t)"
  using assms by (simp add: manage_risk_numeric)

theorem manage_risk_thresholds_witness:
  "py_num (dict_get [(''entry_price'', PNum 400), (''loss'', PNum 200), (''status'', PStr ''open'')]
      ''entry_price'' (PNum 0)) = Some 400
   \<and> (400::real) \<noteq> 0
   \<and> binary64_round 400 = Fin 400
   \<and> py_num (dict_get [(''entry_price'', PNum 400), (''loss'', PNum 200), (''status'', PStr ''open'')]
      ''loss'' (PNum 0)) = Some 200
   \<and> py_num (dict_get [(''entry_price'', PNum 400), (''loss'', PNum 200), (''status'', PStr ''open'')]
      ''profit'' (PNum 0)) = Some 0
   \<and> manage_risk [(''entry_price'', PNum 400), (''loss'', PNum 200), (''status'', PStr ''open'')] (1/2) 1
       = Inr [(''entry_price'', PNum 400), (''loss'', PNum 200), (''status'', PStr ''closed'')]"
proof -
  let ?t = "[(''entry_price'', PNum 400), (''loss'', PNum 200), (''status'', PStr ''open'')]"
  have h1: "py_num (dict_get ?t ''entry_price'' (PNum 0)) = Some 400"
    and h2: "(400::real) \<noteq> 0"
    and h4: "py_num (dict_get ?t ''loss'' (PNum 0)) = Some 200"
    and h5: "py_num (dict_get ?t ''profit'' (PNum 0)) = Some 0"
    by (simp_all add: dict_get_def)
  note h3 = binary64_round_400
  show ?thesis
    using h1 h2 h3 h4 h5 manage_risk_thresholds [OF h1 h2 h3 h4 h5, of "1/2" 1]
    by (simp add: dict_set_def binary64_round_200)
qed

text \<open>
  The second boundary example of the specification: entry price 400, take-profit
  multiplier 1, profit 399 and loss 0 stay below both thresholds.
\<close>

lemma manage_risk_below_thresholds_example:
  "manage_risk [(''entry_price'', PNum 400), (''profit'', PNum 399), (''loss'', PNum 0),
                (''status'', PStr ''open'')] (1/2) 1
     = Inr [(''entry_price'', PNum 400), (''profit'', PNum 399), (''loss'', PNum 0),
            (''status'', PStr ''open'')]"
  by (simp add: manage_risk_def dict_get_def py_eq_def py_mul_float_def py_ge_float_def
      binary64_round_400 binary64_round_200)

text \<open>
  The comparison is with the rounded product. With the float 0.05 as stop-loss
  multiplier, an entry price of 100 and a loss of 5, the exact product of the two
  floats is above 5, the float product is 5, and the trade is closed.
\<close>

lemma manage_risk_rounded_product_example:
  assumes "sl = 3602879701896397 / 2 ^ 56"
  shows "5 < sl * 100
   \<and> manage_risk [(''entry_price'', PNum 100), (''loss'', PNum 5), (''status'', PStr ''open'')] sl 1
       = Inr [(''entry_price'', PNum 100), (''loss'', PNum 5), (''status'', PStr ''closed'')]"
proof -
  let ?t = "[(''entry_price'', PNum 100), (''loss'', PNum 5), (''status'', PStr ''open'')]"
  have exact: "5 < sl * 100"
    by (simp add: assms)
  have "binary64_round (sl * 100) = Fin 5"
    unfolding assms by (rule binary64_round_product_example)
  moreover have "py_num (dict_get ?t ''entry_price'' (PNum 0)) = Some 100"
    and "py_num (dict_get ?t ''loss'' (PNum 0)) = Some 5"
    and "py_num (dict_get ?t ''profit'' (PNum 0)) = Some 0"
    by (simp_all add: dict_get_def)
  ultimately have "manage_risk ?t sl 1 = Inr (dict_set ?t ''status'' (PStr ''closed''))"
    using binary64_round_100 by (simp add: manage_risk_numeric)
  then show ?thesis
    using exact by (simp add: dict_set_def)
qed

text \<open>
  C3. A position whose \<^verbatim>\<open>entry_price\<close> equals 0 (the number 0, or \<^verbatim>\<open>False\<close>,
  which Python also equates with 0) is returned unchanged, whatever its loss,
  profit and status hold and whatever the multipliers are.
\<close>

theorem manage_risk_zero_entry:
  assumes "map_of t ''entry_price'' = Some v" and "py_num v = Some 0"
  shows "manage_risk t sl tp = Inr t"
  using assms by (simp add: manage_risk_def dict_get_def py_eq_zero)

theorem manage_risk_zero_entry_witness:
  "map_of [(''entry_price'', PNum 0), (''loss'', PNum 900), (''profit'', PStr ''n/a''), (''status'', PStr ''open'')]
      ''entry_price'' = Some (PNum 0)
   \<and> py_num (PNum 0) = Some 0
   \<and> manage_risk [(''entry_price'', PNum 0), (''loss'', PNum 900), (''profit'', PStr ''n/a''), (''status'', PStr ''open'')] (1/2) 1
       = Inr [(''entry_price'', PNum 0), (''loss'', PNum 900), (''profit'', PStr ''n/a''), (''status'', PStr ''open'')]"
proof -
  let ?t = "[(''entry_price'', PNum 0), (''loss'', PNum 900), (''profit'', PStr ''n/a''), (''status'', PStr ''open'')]"
  have h1: "map_of ?t ''entry_price'' = Some (PNum 0)" and h2: "py_num (PNum 0) = Some 0"
    by simp_all
  show ?thesis
    using h1 h2 manage_risk_zero_entry [OF h1 h2, of "1/2" 1] by simp
qed

text \<open>
  C10. A trade with no \<^verbatim>\<open>entry_price\<close> field at all is returned unchanged: the
  field defaults to 0 and the zero-entry guard returns at once.
\<close>

theorem manage_risk_no_entry:
  assumes "map_of t ''entry_price'' = None"
  shows "manage_risk t sl tp = Inr t"
  using assms by (simp add: manage_risk_def dict_get_def py_eq_zero)

theorem manage_risk_no_entry_witness:
  "map_of [(''loss'', PNum 900), (''status'', PStr ''open'')] ''entry_price'' = None
   \<and> manage_risk [(''loss'', PNum 900), (''status'', PStr ''open'')] (1/2) 1
       = Inr [(''loss'', PNum 900), (''status'', PStr ''open'')]"
proof -
  let ?t = "[(''loss'', PNum 900), (''status'', PStr ''open'')]"
  have h1: "map_of ?t ''entry_price'' = None" by simp
  show ?thesis
    using h1 manage_risk_no_entry [OF h1, of "1/2" 1] by simp
qed

text \<open>
  C8, as stated, fails. An \<^verbatim>\<open>int\<close> entry price of \<open>- 10 ^ 309\<close> is strictly
  negative, the absent loss reads as 0 and the stop-loss multiplier is positive,
  and the trade is not closed: converting the entry price for
  \<^verbatim>\<open>stop_loss * entry_price\<close> raises \<^verbatim>\<open>OverflowError\<close>.
\<close>

theorem manage_risk_negative_entry_counterexample:
  "(- (10 ^ 309) :: real) < 0 \<and> (0::real) < 1/2
   \<and> manage_risk [(''entry_price'', PNum (- (10 ^ 309))), (''status'', PStr ''open'')] (1/2) 1
       = Inl OverflowError"
proof -
  have "manage_risk [(''entry_price'', PNum (- (10 ^ 309))), (''status'', PStr ''open'')] (1/2) 1
       = Inl OverflowError"
    by (rule manage_risk_overflow [where e = "- (10 ^ 309)"]) (simp_all add: dict_get_def)
  then show ?thesis by simp
qed

text \<open>
  C8, amended. A trade with a strictly negative entry price that converts to a
  float, a non-negative loss (the default 0 of an absent field included) and a
  positive stop-loss multiplier is closed: the float product
  stop_loss * entry_price is not positive, and the guard covers only an entry
  price of exactly 0. The profit field is not looked at.
\<close>

theorem manage_risk_negative_entry:
  assumes "py_num (dict_get t ''entry_price'' (PNum 0)) = Some e" and "e < 0"
    and "binary64_round e = Fin e'"
    and "py_num (dict_get t ''loss'' (PNum 0)) = Some l" and "0 \<le> l"
    and "0 < sl"
  shows "manage_risk t sl tp = Inr (dict_set t ''status'' (PStr ''closed''))"
proof -
  have "float_le (binary64_round e) 0"
    using assms(2) by (simp add: binary64_round_nonpos)
  then have "e' \<le> 0"
    by (simp add: assms(3))
  then have "sl * e' \<le> 0"
    using assms(6) by (simp add: mult_le_0_iff)
  then have "float_le (binary64_round (sl * e')) 0"
    by (rule binary64_round_nonpos)
  then have stop: "float_le (binary64_round (sl * e')) l"
    using assms(5) by (rule float_le_mono)
  have "py_mul_float sl (dict_get t ''entry_price'' (PNum 0)) = Inr (binary64_round (sl * e'))"
    using assms(1,3) by (rule py_mul_float_num)
  moreover have "py_ge_float (dict_get t ''loss'' (PNum 0)) (binary64_round (sl * e')) = Inr True"
    using assms(4) stop by (simp add: py_ge_float_num)
  moreover have "\<not> py_eq (dict_get t ''entry_price'' (PNum 0)) (PNum 0)"
    using assms(1,2) by (simp add: py_eq_zero)
  ultimately show ?thesis
    by (simp add: manage_risk_def Let_def)
qed

theorem manage_risk_negative_entry_witness:
  "py_num (dict_get [(''entry_price'', PNum (- 400)), (''status'', PStr ''open'')] ''entry_price'' (PNum 0)) = Some (- 400)
   \<and> (- 400 :: real) < 0
   \<and> binary64_round (- 400) = Fin (- 400)
   \<and> py_num (dict_get [(''entry_price'', PNum (- 400)), (''status'', PStr ''open'')] ''loss'' (PNum 0)) = Some 0
   \<and> (0::real) \<le> 0 \<and> (0::real) < 1/2
   \<and> manage_risk [(''entry_price'', PNum (- 400)), (''status'', PStr ''open'')] (1/2) 1
       = Inr [(''entry_price'', PNum (- 400)), (''status'', PStr ''closed'')]"
proof -
  let ?t = "[(''entry_price'', PNum (- 400)), (''status'', PStr ''open'')]"
  have h1: "py_num (dict_get ?t ''entry_price'' (PNum 0)) = Some (- 400)"
    and h2: "(- 400 :: real) < 0"
    and h4: "py_num (dict_get ?t ''loss'' (PNum 0)) = Some 0"
    and h5: "(0::real) \<le> 0" and h6: "(0::real) < 1/2"
    by (simp_all add: dict_get_def)
  note h3 = binary64_round_neg_400
  show ?thesis
    using h1 h2 h3 h4 h5 h6 manage_risk_negative_entry [OF h1 h2 h3 h4 h5 h6, of 1]
    by (simp add: dict_set_def)
qed

text \<open>
  C7. \<^verbatim>\<open>manage_risk\<close> is a function of its arguments alone and changes at most
  the \<^verbatim>\<open>status\<close> field: whenever it returns, every entry of the returned
  dictionary other than \<^verbatim>\<open>status\<close> is the entry of the input, in the same
  order, so entry price, profit and loss are as they were. On a position with
  numeric fields whose entry price converts to a float it does return.
\<close>

theorem manage_risk_frame:
  "(numeric_position t \<and> entry_price_in_float_range t \<longrightarrow>
      (\<exists>t'. manage_risk t sl tp = Inr t'))
   \<and> (\<forall>t'. manage_risk t sl tp = Inr t' \<longrightarrow>
         filter (\<lambda>(k, v). k \<noteq> ''status'') t' = filter (\<lambda>(k, v). k \<noteq> ''status'') t
         \<and> (\<forall>k. k \<noteq> ''status'' \<longrightarrow> map_of t' k = map_of t k))"
proof -
  have "filter (\<lambda>(k, v). k \<noteq> ''status'') t' = filter (\<lambda>(k, v). k \<noteq> ''status'') t
         \<and> (\<forall>k. k \<noteq> ''status'' \<longrightarrow> map_of t' k = map_of t k)"
    if "manage_risk t sl tp = Inr t'" for t'
  proof -
    from that consider "t' = t" | "t' = dict_set t ''status'' (PStr ''closed'')"
      using manage_risk_Inr_cases by blast
    then show ?thesis
    proof cases
      case 1
      then show ?thesis by simp
    next
      case 2
      have "filter (\<lambda>(k, v). k \<noteq> ''status'') t' = filter (\<lambda>(k, v). k \<noteq> ''status'') t"
        using filter_update_other [of "''status''" "PStr ''closed''" t]
        by (simp add: 2 dict_set_def case_prod_unfold)
      moreover have "\<forall>k. k \<noteq> ''status'' \<longrightarrow> map_of t' k = map_of t k"
        by (simp add: 2 dict_set_def update_conv')
      ultimately show ?thesis by blast
    qed
  qed
  then show ?thesis
    using manage_risk_returns by blast
qed

theorem manage_risk_frame_witness:
  "numeric_position [(''entry_price'', PNum 400), (''loss'', PNum 200), (''status'', PStr ''open'')]
   \<and> entry_price_in_float_range
        [(''entry_price'', PNum 400), (''loss'', PNum 200), (''status'', PStr ''open'')]
   \<and> manage_risk [(''entry_price'', PNum 400), (''loss'', PNum 200), (''status'', PStr ''open'')] (1/2) 1
       = Inr [(''entry_price'', PNum 400), (''loss'', PNum 200), (''status'', PStr ''closed'')]
   \<and> ''loss'' \<noteq> ''status''
   \<and> map_of [(''entry_price'', PNum 400), (''loss'', PNum 200), (''status'', PStr ''closed'')] ''loss''
       = map_of [(''entry_price'', PNum 400), (''loss'', PNum 200), (''status'', PStr ''open'')] ''loss''
   \<and> filter (\<lambda>(k, v). k \<noteq> ''status'')
         [(''entry_price'', PNum 400), (''loss'', PNum 200), (''status'', PStr ''closed'')]
       = filter (\<lambda>(k, v). k \<noteq> ''status'')
         [(''entry_price'', PNum 400), (''loss'', PNum 200), (''status'', PStr ''open'')]"
proof -
  let ?t = "[(''entry_price'', PNum 400), (''loss'', PNum 200), (''status'', PStr ''open'')]"
  let ?t' = "[(''entry_price'', PNum 400), (''loss'', PNum 200), (''status'', PStr ''closed'')]"
  have h1: "numeric_position ?t"
    by (simp add: numeric_position_def dict_get_def)
  have h1': "entry_price_in_float_range ?t"
    by (simp add: entry_price_in_float_range_def dict_get_def binary64_round_400)
  have h2: "manage_risk ?t (1/2) 1 = Inr ?t'"
    by (simp add: manage_risk_def dict_get_def dict_set_def py_eq_def py_mul_float_def
        py_ge_float_def binary64_round_400 binary64_round_200)
  have h3: "''loss'' \<noteq> ''status''"
    by simp
  note r = manage_risk_frame [of ?t "1/2" 1, THEN conjunct2, rule_format, OF h2]
  note r1 = r [THEN conjunct1]
  note r2 = r [THEN conjunct2, rule_format, OF h3]
  from h1 h1' h2 h3 r2 r1 show ?thesis by (intro conjI)
qed

text \<open>
  C9. The status of the result of \<^verbatim>\<open>manage_risk\<close> is the status of the input
  or the string "closed"; a status that is "closed" stays "closed". On a position
  with numeric fields whose entry price converts to a float the function does
  return.
\<close>

theorem manage_risk_status:
  "(numeric_position t \<and> entry_price_in_float_range t \<longrightarrow>
      (\<exists>t'. manage_risk t sl tp = Inr t'))
   \<and> (\<forall>t'. manage_risk t sl tp = Inr t' \<longrightarrow>
         (map_of t' ''status'' = map_of t ''status''
          \<or> map_of t' ''status'' = Some (PStr ''closed''))
         \<and> (map_of t ''status'' = Some (PStr ''closed'') \<longrightarrow>
              map_of t' ''status'' = Some (PStr ''closed'')))"
proof -
  have "(map_of t' ''status'' = map_of t ''status''
          \<or> map_of t' ''status'' = Some (PStr ''closed''))
         \<and> (map_of t ''status'' = Some (PStr ''closed'') \<longrightarrow>
              map_of t' ''status'' = Some (PStr ''closed''))"
    if "manage_risk t sl tp = Inr t'" for t'
  proof -
    from that have "t' = t \<or> t' = dict_set t ''status'' (PStr ''closed'')"
      by (rule manage_risk_Inr_cases)
    then show ?thesis
      by (auto simp: dict_set_def update_conv')
  qed
  then show ?thesis
    using manage_risk_returns by blast
qed

theorem manage_risk_status_witness:
  "numeric_position [(''entry_price'', PNum 400), (''profit'', PNum 10), (''status'', PStr ''closed'')]
   \<and> entry_price_in_float_range
        [(''entry_price'', PNum 400), (''profit'', PNum 10), (''status'', PStr ''closed'')]
   \<and> manage_risk [(''entry_price'', PNum 400), (''profit'', PNum 10), (''status'', PStr ''closed'')] (1/2) 1
       = Inr [(''entry_price'', PNum 400), (''profit'', PNum 10), (''status'', PStr ''closed'')]
   \<and> map_of [(''entry_price'', PNum 400), (''profit'', PNum 10), (''status'', PStr ''closed'')] ''status''
       = Some (PStr ''closed'')"
proof -
  let ?t = "[(''entry_price'', PNum 400), (''profit'', PNum 10), (''status'', PStr ''closed'')]"
  have h1: "numeric_position ?t"
    by (simp add: numeric_position_def dict_get_def)
  have h1': "entry_price_in_float_range ?t"
    by (simp add: entry_price_in_float_range_def dict_get_def binary64_round_400)
  have h2: "manage_risk ?t (1/2) 1 = Inr ?t"
    by (simp add: manage_risk_def dict_get_def dict_set_def py_eq_def py_mul_float_def
        py_ge_float_def binary64_round_400 binary64_round_200)
  have h3: "map_of ?t ''status'' = Some (PStr ''closed'')"
    by simp
  note r = manage_risk_status [of ?t "1/2" 1, THEN conjunct2, rule_format, OF h2]
  note r2 = r [THEN conjunct2, rule_format, OF h3]
  from h1 h1' h2 r2 show ?thesis by (intro conjI)
qed

section \<open>The execute-trade endpoint: missing payload and inserted row\<close>

text \<open>
  C4, as stated, fails. The body \<^verbatim>\<open>0\<close> is parsed to the number 0, which is
  neither missing nor empty, and the handler still answers with the 400 response
  and its fixed message, because the guard \<^verbatim>\<open>if not payload\<close> tests the Python
  truth value.
\<close>

theorem execute_trade_payload_missing_counterexample:
  "fst (execute_trade store_echo (JNum 0)) = Inr payload_missing_response
   \<and> \<not> no_json_body (JNum 0)"
  by (simp add: execute_trade_def payload_missing_response_def no_json_body_def)

text \<open>
  C4, amended. \<^verbatim>\<open>execute_trade\<close> answers with status 400 and the fixed message
  "No JSON payload provided" if and only if the value returned by
  \<^verbatim>\<open>request.get_json()\<close> is false in Python's sense: \<^verbatim>\<open>None\<close>, \<^verbatim>\<open>False\<close>, the
  number 0, the empty string, the empty array or the empty object. In that case
  nothing is passed to the store.
\<close>

theorem execute_trade_payload_missing:
  "(fst (execute_trade insert_trades payload) = Inr payload_missing_response
      \<longleftrightarrow> payload \<in> {JNull, JBool False, JNum 0, JStr [], JArr [], JObj []})
   \<and> (payload \<in> {JNull, JBool False, JNum 0, JStr [], JArr [], JObj []}
      \<longrightarrow> snd (execute_trade insert_trades payload) = [])"
proof (cases "truthy payload")
  case False
  then have "fst (execute_trade insert_trades payload) = Inr payload_missing_response"
    and "snd (execute_trade insert_trades payload) = []"
    by (simp_all add: execute_trade_def payload_missing_response_def)
  with False show ?thesis
    by (simp add: truthy_iff)
next
  case True
  have "fst (execute_trade insert_trades payload) \<noteq> Inr payload_missing_response"
    using True
    by (cases payload)
      (auto simp: execute_trade_def payload_missing_response_def Let_def split: sum.splits)
  with True show ?thesis
    by (simp add: truthy_iff)
qed

theorem execute_trade_payload_missing_witness:
  "JNull \<in> {JNull, JBool False, JNum 0, JStr [], JArr [], JObj []}
   \<and> fst (execute_trade store_echo JNull) = Inr payload_missing_response
   \<and> snd (execute_trade store_echo JNull) = []"
  using execute_trade_payload_missing [of store_echo JNull] by simp

text \<open>
  C5, as stated, fails. The array \<^verbatim>\<open>[1]\<close> is a non-empty payload: it passes the
  guard, and then \<^verbatim>\<open>payload.get\<close> raises \<^verbatim>\<open>AttributeError\<close>, so no row is built
  and nothing is passed to the store.
\<close>

theorem execute_trade_row_counterexample:
  "truthy (JArr [JNum 1])
   \<and> execute_trade store_echo (JArr [JNum 1]) = (Inl AttributeError, [])"
  by (simp add: execute_trade_def)

text \<open>
  C5, amended. For a payload that is a non-empty JSON object, \<^verbatim>\<open>execute_trade\<close>
  builds one row and passes exactly that row to the store once. Its \<^verbatim>\<open>status\<close>
  is "executed" whatever the payload says, and each other field is the payload's,
  or its default when the payload has no such field: "No Signal", "Unknown", 0, 0
  and null. The request ends as that call to the store ends: its exception, or
  status 201 with the data the store reports.
\<close>

theorem execute_trade_row:
  assumes "kvs \<noteq> []"
  shows "execute_trade insert_trades (JObj kvs) =
     (let row =
        [(''signal'', case map_of kvs ''signal'' of None \<Rightarrow> JStr ''No Signal'' | Some v \<Rightarrow> v),
         (''broker'', case map_of kvs ''broker'' of None \<Rightarrow> JStr ''Unknown'' | Some v \<Rightarrow> v),
         (''capital_allocation'',
            case map_of kvs ''capital_allocation'' of None \<Rightarrow> JNum 0 | Some v \<Rightarrow> v),
         (''entry_price'', case map_of kvs ''entry_price'' of None \<Rightarrow> JNum 0 | Some v \<Rightarrow> v),
         (''status'', JStr ''executed''),
         (''user_id'', case map_of kvs ''user_id'' of None \<Rightarrow> JNull | Some v \<Rightarrow> v)]
      in ((case insert_trades row of
             Inl e \<Rightarrow> Inl e
           | Inr data \<Rightarrow> Inr (JObj [(''status'', JStr ''success''), (''data'', data)], 201)),
          row # []))"
  using assms
  by (simp add: execute_trade_def Let_def split: sum.splits)

theorem execute_trade_row_witness:
  "[(''status'', JStr ''open''), (''broker'', JStr ''IBKR'')] \<noteq> []
   \<and> execute_trade store_echo (JObj [(''status'', JStr ''open''), (''broker'', JStr ''IBKR'')]) =
     (Inr (JObj [(''status'', JStr ''success''),
                 (''data'', JArr (JObj [(''signal'', JStr ''No Signal''),
                                        (''broker'', JStr ''IBKR''),
                                        (''capital_allocation'', JNum 0),
                                        (''entry_price'', JNum 0),
                                        (''status'', JStr ''executed''),
                                        (''user_id'', JNull)] # []))], 201),
      [(''signal'', JStr ''No Signal''),
       (''broker'', JStr ''IBKR''),
       (''capital_allocation'', JNum 0),
       (''entry_price'', JNum 0),
       (''status'', JStr ''executed''),
       (''user_id'', JNull)] # [])"
proof -
  have h: "[(''status'', JStr ''open''), (''broker'', JStr ''IBKR'')] \<noteq> []"
    by simp
  show ?thesis
    using h execute_trade_row [OF h, of store_echo] by (simp add: store_echo_def Let_def)
qed

end
